theory Spec2Isabelle
  imports Main "HOL-Library.Sublist"
begin

section \<open>Part 2, database setup: the two routes of app.py over an explicit store\<close>

text \<open>
  The application has two routes, \<^verbatim>\<open>/\<close> (\<^verbatim>\<open>home\<close>) and \<^verbatim>\<open>/test-db\<close>
  (\<^verbatim>\<open>test_db\<close>). The only state is the database behind \<^verbatim>\<open>db.session\<close>: the
  tables \<^verbatim>\<open>user\<close> and \<^verbatim>\<open>todo\<close>. A handler is a function from the store before the
  request to the store after it and the outcome of the request: a response, or the exception
  that leaves the handler.
\<close>

subsection \<open>Data model\<close>

text \<open>
  Modelled from the spec: \<^verbatim>\<open>models.py\<close> (the classes \<^verbatim>\<open>User\<close> and \<^verbatim>\<open>Todo\<close>,
  \<^verbatim>\<open>db\<close> and \<^verbatim>\<open>init_db\<close>) is not among the sources. The columns are those of section 3
  of the specification and of the keyword arguments that \<^verbatim>\<open>test_db\<close> passes. An identifier
  is \<^verbatim>\<open>None\<close> on an object that has not been flushed and an integer on a row, hence
  \<open>int option\<close>. \<open>u_id\<close> is \<^verbatim>\<open>User.id\<close> and \<open>t_id\<close> is \<^verbatim>\<open>Todo.id\<close>.
\<close>

record user =
  u_id :: "int option"
  username :: string
  email :: string
  phone :: "string option"
  password_hash :: string

record todo =
  t_id :: "int option"
  task_content :: string
  user_id :: "int option"

text \<open>The two tables, each in insertion order.\<close>

record store =
  users :: "user list"
  todos :: "todo list"

definition empty_store :: store where
  "empty_store = \<lparr>users = [], todos = []\<rparr>"

text \<open>
  \<^verbatim>\<open>User(username=..., email=..., password_hash=...)\<close> and
  \<^verbatim>\<open>Todo(task_content=..., user_id=...)\<close>: a new object, not yet in any table, with no
  identifier. A keyword that is left out (\<^verbatim>\<open>phone\<close> for user1 and user3) is \<^verbatim>\<open>None\<close>.
\<close>

definition User :: "string \<Rightarrow> string \<Rightarrow> string option \<Rightarrow> string \<Rightarrow> user" where
  "User name mail ph pw =
     \<lparr>u_id = None, username = name, email = mail, phone = ph, password_hash = pw\<rparr>"

definition Todo :: "string \<Rightarrow> int option \<Rightarrow> todo" where
  "Todo task owner = \<lparr>t_id = None, task_content = task, user_id = owner\<rparr>"

subsection \<open>The storage layer\<close>

text \<open>
  Modelled from the spec: the identifier is "auto-assigned, unique" (section 3). The store
  hands out one more than the largest identifier of the table, and 1 in an empty table.
\<close>

definition next_id :: "int option list \<Rightarrow> int" where
  "next_id ids = fold (\<lambda>i m. case i of None \<Rightarrow> m | Some k \<Rightarrow> max k m) ids 0 + 1"

text \<open>
  The flush at \<^verbatim>\<open>db.session.commit()\<close> inserts the objects given to
  \<^verbatim>\<open>db.session.add_all\<close> in the order of the list and writes the new identifier into
  each object. The result is the list of the objects as they are after the commit, and the
  store.
\<close>

fun flush_users :: "user list \<Rightarrow> store \<Rightarrow> user list \<times> store" where
  "flush_users [] s = ([], s)"
| "flush_users (u # us) s =
     (let u' = u\<lparr>u_id := Some (next_id (map u_id (users s)))\<rparr>;
          (us', s') = flush_users us (s\<lparr>users := users s @ [u']\<rparr>)
      in (u' # us', s'))"

fun flush_todos :: "todo list \<Rightarrow> store \<Rightarrow> todo list \<times> store" where
  "flush_todos [] s = ([], s)"
| "flush_todos (t # ts) s =
     (let t' = t\<lparr>t_id := Some (next_id (map t_id (todos s)))\<rparr>;
          (ts', s') = flush_todos ts (s\<lparr>todos := todos s @ [t']\<rparr>)
      in (t' # ts', s'))"

text \<open>
  The handlers catch nothing, so an error of the storage layer leaves the handler as an
  exception. \<open>fault\<close> names the statement of \<^verbatim>\<open>test_db\<close> at which the storage layer
  raises during one request; \<open>None\<close> is a request during which it does not raise.
\<close>

datatype error = StorageError

datatype fault =
    AtGuardCount   \<comment> \<open>\<^verbatim>\<open>User.query.count()\<close> of the guard, line 41\<close>
  | AtUsersCommit  \<comment> \<open>the first \<^verbatim>\<open>db.session.commit()\<close>, line 63\<close>
  | AtTodosCommit  \<comment> \<open>after the first commit, up to the second one, lines 66 to 71\<close>
  | AtListing      \<comment> \<open>the queries that follow, lines 77 to 88\<close>

text \<open>A commit that fails is rolled back: nothing of the pending list is in the store.\<close>

definition commit_users ::
  "fault option \<Rightarrow> user list \<Rightarrow> store \<Rightarrow> error + (user list \<times> store)" where
  "commit_users f us s =
     (if f = Some AtUsersCommit then Inl StorageError else Inr (flush_users us s))"

definition commit_todos ::
  "fault option \<Rightarrow> todo list \<Rightarrow> store \<Rightarrow> error + (todo list \<times> store)" where
  "commit_todos f ts s =
     (if f = Some AtTodosCommit then Inl StorageError else Inr (flush_todos ts s))"

text \<open>\<^verbatim>\<open>query.count()\<close>, \<^verbatim>\<open>query.all()\<close> and \<^verbatim>\<open>query.first()\<close> on a table.\<close>

definition query_count :: "'a list \<Rightarrow> int" where
  "query_count rows = int (length rows)"

definition query_all :: "'a list \<Rightarrow> 'a list" where
  "query_all rows = rows"

definition query_first :: "'a list \<Rightarrow> 'a option" where
  "query_first rows = (case rows of [] \<Rightarrow> None | r # _ \<Rightarrow> Some r)"

subsection \<open>Responses\<close>

text \<open>
  Modelled from the spec: the templates \<^verbatim>\<open>index.html\<close> and \<^verbatim>\<open>test_db.html\<close> are not
  among the sources. \<^verbatim>\<open>render_template\<close> yields a page, which is the name of the template
  and the rows it is given; a view that returns a page answers with status 200 (section 6).
  The three \<^verbatim>\<open>print\<close> calls of \<^verbatim>\<open>test_db\<close> are the field \<open>printed\<close>.
\<close>

datatype printed =
    AllUsers "user list"
  | FirstUser "user option"
  | TotalUsers int

record response =
  status :: nat
  template :: string
  ctx_users :: "user list"
  ctx_todos :: "todo list"
  printed :: "printed list"

definition render_template :: "string \<Rightarrow> user list \<Rightarrow> todo list \<Rightarrow> printed list \<Rightarrow> response" where
  "render_template name us ts out =
     \<lparr>status = 200, template = name, ctx_users = us, ctx_todos = ts, printed = out\<rparr>"

subsection \<open>The handlers\<close>

definition home :: "store \<Rightarrow> store \<times> (error + response)" where
  "home s = (s, Inr (render_template ''index.html'' [] [] []))"

text \<open>
  \<^verbatim>\<open>test_db\<close>, statement by statement. The seed branch yields the store it leaves and the
  exception, if one was raised in it; the listing runs when none was.
\<close>

definition test_db :: "fault option \<Rightarrow> store \<Rightarrow> store \<times> (error + response)" where
  "test_db f s =
     (if f = Some AtGuardCount then (s, Inl StorageError)
      else
        (case
           (if query_count (users s) = 0 then
              (let user1 = User ''user1'' ''user1@example.com'' None ''pass'';
                   user2 = User ''user2'' ''user2@example.com'' (Some ''123-456-7890'') ''pass'';
                   user3 = User ''user3'' ''user3@example.com'' None ''pass''
               in case commit_users f [user1, user2, user3] s of
                    Inl e \<Rightarrow> (s, Some e)
                  | Inr (us, s1) \<Rightarrow>
                      (let todo1 = Todo ''Learn Flask'' (u_id (us ! 0));
                           todo2 = Todo ''Learn SQLAlchemy'' (u_id (us ! 1));
                           todo3 = Todo ''Build Todo App'' (u_id (us ! 2))
                       in case commit_todos f [todo1, todo2, todo3] s1 of
                            Inl e \<Rightarrow> (s1, Some e)
                          | Inr (ts, s2) \<Rightarrow> (s2, None)))
            else (s, None))
         of
           (s', Some e) \<Rightarrow> (s', Inl e)
         | (s', None) \<Rightarrow>
             (if f = Some AtListing then (s', Inl StorageError)
              else
                (let all_users = query_all (users s');
                     first_user = query_first (users s');
                     total_users = query_count (users s');
                     all_todos = query_all (todos s')
                 in (s', Inr (render_template ''test_db.html'' all_users all_todos
                        [AllUsers all_users, FirstUser first_user, TotalUsers total_users]))))))"

text \<open>A request to one of the two routes, and a sequence of requests served one after another.\<close>

datatype request = GetHome | GetTestDb

definition handle :: "fault option \<Rightarrow> request \<Rightarrow> store \<Rightarrow> store \<times> (error + response)" where
  "handle f r s = (case r of GetHome \<Rightarrow> home s | GetTestDb \<Rightarrow> test_db f s)"

fun serve :: "(fault option \<times> request) list \<Rightarrow> store \<Rightarrow> store" where
  "serve [] s = s"
| "serve ((f, r) # rs) s = serve rs (fst (handle f r s))"

subsection \<open>Properties of the stored state\<close>

text \<open>Every todo's owner reference is the identifier of a row of the user table.\<close>

definition owners_resolve :: "store \<Rightarrow> bool" where
  "owners_resolve s =
     list_all (\<lambda>t. user_id t \<noteq> None \<and> list_ex (\<lambda>u. u_id u = user_id t) (users s)) (todos s)"

text \<open>Stores used as concrete inputs below.\<close>

definition one_user_store :: store where
  "one_user_store =
     \<lparr>users = [\<lparr>u_id = Some 1, username = ''alice'', email = ''alice@example.com'',
                 phone = None, password_hash = ''x''\<rparr>],
      todos = []\<rparr>"

definition orphan_todo_store :: store where
  "orphan_todo_store =
     \<lparr>users = [],
      todos = [\<lparr>t_id = Some 5, task_content = ''Left over'', user_id = Some 9\<rparr>]\<rparr>"

section \<open>Verification\<close>

subsection \<open>Auxiliary facts\<close>

lemmas model_defs = test_db_def commit_users_def commit_todos_def User_def Todo_def
  query_count_def query_all_def query_first_def render_template_def Let_def

text \<open>Once the user table has a row, \<^verbatim>\<open>test_db\<close> writes nothing, whatever else happens.\<close>

lemma test_db_seeded: "users s \<noteq> [] \<Longrightarrow> fst (test_db f s) = s"
  by (simp add: model_defs)

lemma handle_seeded: "users s \<noteq> [] \<Longrightarrow> fst (handle f r s) = s"
  by (cases r) (simp_all add: handle_def home_def test_db_seeded)

lemma serve_seeded: "users s \<noteq> [] \<Longrightarrow> serve rs s = s"
  by (induction rs arbitrary: s) (auto simp: handle_seeded)

lemma test_db_users_prefix: "prefix (users s) (users (fst (test_db f s)))"
  by (cases "users s = []") (simp_all add: test_db_seeded)

lemma test_db_todos_prefix: "prefix (todos s) (todos (fst (test_db f s)))"
proof (cases "users s = []")
  case True
  then show ?thesis
    by (cases f) (simp_all add: model_defs)
next
  case False
  then show ?thesis by (simp add: test_db_seeded)
qed

lemma test_db_owners:
  assumes "owners_resolve s"
  shows "owners_resolve (fst (test_db f s))"
proof (cases "users s = []")
  case True
  with assms show ?thesis
    by (cases f) (auto simp add: model_defs owners_resolve_def list_all_iff list_ex_iff)
next
  case False
  with assms show ?thesis by (simp add: test_db_seeded)
qed

lemma handle_owners: "owners_resolve s \<Longrightarrow> owners_resolve (fst (handle f r s))"
  by (cases r) (simp_all add: handle_def home_def test_db_owners)

lemma serve_owners: "owners_resolve s \<Longrightarrow> owners_resolve (serve rs s)"
proof (induction rs arbitrary: s)
  case Nil
  then show ?case by simp
next
  case (Cons p rs)
  obtain f r where p: "p = (f, r)" by (cases p)
  from Cons.prems have "owners_resolve (fst (handle f r s))" by (rule handle_owners)
  then have "owners_resolve (serve rs (fst (handle f r s)))" by (rule Cons.IH)
  with p show ?case by simp
qed

lemma owners_resolve_empty: "owners_resolve empty_store"
  by (simp add: owners_resolve_def empty_store_def)

subsection \<open>The claims\<close>

text \<open>
  C1. On a freshly initialised store, whose two tables are empty, one request to
  \<^verbatim>\<open>/test-db\<close> that the storage layer serves without an error answers with status 200
  and leaves exactly 3 user rows and exactly 3 todo rows. Every todo's owner reference is the
  identifier of a user row, the three owner references are pairwise different, and so are
  the three user identifiers: each todo belongs to a user of its own.
\<close>

theorem test_db_fresh_store:
  "(let s' = fst (test_db None empty_store) in
      length (users s') = 3 \<and> length (todos s') = 3 \<and>
      owners_resolve s' \<and> distinct (map user_id (todos s')) \<and>
      distinct (map u_id (users s'))) \<and>
   (\<exists>resp. snd (test_db None empty_store) = Inr resp \<and> status resp = 200)"
  by (simp add: model_defs next_id_def empty_store_def owners_resolve_def)

text \<open>
  C2. After one served request to \<^verbatim>\<open>/test-db\<close> on a fresh store, a second request to
  \<^verbatim>\<open>/test-db\<close>, whether or not the storage layer raises during it, leaves the number of
  user rows and the number of todo rows as they are; in fact it leaves the whole store as it
  is.
\<close>

theorem test_db_second_request:
  "(let s1 = fst (test_db None empty_store); s2 = fst (test_db f s1) in
      length (users s2) = length (users s1) \<and> length (todos s2) = length (todos s1) \<and>
      s2 = s1)"
proof -
  have "users (fst (test_db None empty_store)) \<noteq> []"
    by (simp add: model_defs empty_store_def)
  then have "fst (test_db f (fst (test_db None empty_store))) = fst (test_db None empty_store)"
    by (rule test_db_seeded)
  then show ?thesis by (simp add: Let_def)
qed

text \<open>
  C3. On a store that holds exactly one user row and no todo row, a request to
  \<^verbatim>\<open>/test-db\<close> leaves the todo table empty: the guard counts the users, finds one, and
  the seed branch, the only code that inserts todos, does not run.
\<close>

theorem test_db_one_user_no_todos:
  "length (users s) = 1 \<Longrightarrow> todos s = [] \<Longrightarrow> todos (fst (test_db f s)) = []"
proof -
  assume n: "length (users s) = 1" and t: "todos s = []"
  from n have "users s \<noteq> []" by auto
  then have "fst (test_db f s) = s" by (rule test_db_seeded)
  with t show ?thesis by simp
qed

theorem test_db_one_user_no_todos_witness:
  "length (users one_user_store) = 1 \<and> todos one_user_store = [] \<and>
   todos (fst (test_db None one_user_store)) = []"
proof -
  have h1: "length (users one_user_store) = 1" by (simp add: one_user_store_def)
  have h2: "todos one_user_store = []" by (simp add: one_user_store_def)
  show ?thesis using h1 h2 test_db_one_user_no_todos [OF h1 h2, of None] by simp
qed

text \<open>
  C4. When the seed branch runs (the user table is empty and the storage layer raises no
  error), the user rows it inserts have the usernames user1, user2, user3 in this order; of
  the three only user2 has a phone value, which is 123-456-7890; the todo rows it appends
  have the task texts Learn Flask, Learn SQLAlchemy, Build Todo App in this order, and their
  owner references are the identifiers of user1, user2, user3 in this order.
\<close>

theorem test_db_seed_literals:
  "users s = [] \<Longrightarrow>
   (let s' = fst (test_db None s); new_todos = drop (length (todos s)) (todos s') in
      map username (users s') = [''user1'', ''user2'', ''user3''] \<and>
      map phone (users s') = [None, Some ''123-456-7890'', None] \<and>
      map task_content new_todos = [''Learn Flask'', ''Learn SQLAlchemy'', ''Build Todo App''] \<and>
      map user_id new_todos = map u_id (users s') \<and>
      list_all (\<lambda>u. u_id u \<noteq> None) (users s'))"
  by (simp add: model_defs next_id_def)

theorem test_db_seed_literals_witness:
  "users orphan_todo_store = [] \<and>
   (let s' = fst (test_db None orphan_todo_store);
        new_todos = drop (length (todos orphan_todo_store)) (todos s') in
      map username (users s') = [''user1'', ''user2'', ''user3''] \<and>
      map phone (users s') = [None, Some ''123-456-7890'', None] \<and>
      map task_content new_todos = [''Learn Flask'', ''Learn SQLAlchemy'', ''Build Todo App''] \<and>
      map user_id new_todos = map u_id (users s') \<and>
      list_all (\<lambda>u. u_id u \<noteq> None) (users s'))"
proof -
  have h: "users orphan_todo_store = []" by (simp add: orphan_todo_store_def)
  show ?thesis using h test_db_seed_literals [OF h] by simp
qed

text \<open>
  C5. The seed branch commits twice, the users first, and the two commits are not one
  transaction. An error of the storage layer at the first commit leaves the store empty. An
  error after the first commit and before the second one has completed leaves the three
  users in the store and no todo, and the exception leaves the handler. From then on every
  request, to either route and whatever the storage layer does, leaves this store as it is:
  the guard finds users and the seed branch never runs again, so the users stay without
  todos.
\<close>

theorem test_db_seed_not_atomic:
  "fst (test_db (Some AtUsersCommit) empty_store) = empty_store \<and>
   (let half = fst (test_db (Some AtTodosCommit) empty_store) in
      snd (test_db (Some AtTodosCommit) empty_store) = Inl StorageError \<and>
      length (users half) = 3 \<and> todos half = [] \<and>
      fst (test_db f half) = half \<and>
      serve rs half = half \<and> todos (serve rs half) = [])"
proof -
  let ?half = "fst (test_db (Some AtTodosCommit) empty_store)"
  have first: "fst (test_db (Some AtUsersCommit) empty_store) = empty_store"
    by (simp add: model_defs empty_store_def)
  have raised: "snd (test_db (Some AtTodosCommit) empty_store) = Inl StorageError"
    by (simp add: model_defs empty_store_def)
  have three: "length (users ?half) = 3"
    by (simp add: model_defs empty_store_def)
  have none: "todos ?half = []"
    by (simp add: model_defs empty_store_def)
  from three have seeded: "users ?half \<noteq> []" by auto
  from seeded have again: "fst (test_db f ?half) = ?half" by (rule test_db_seeded)
  from seeded have forever: "serve rs ?half = ?half" by (rule serve_seeded)
  from first raised three none again forever show ?thesis
    by (simp add: Let_def)
qed

text \<open>
  C6. In every store that a sequence of requests to the two routes reaches from the empty
  store, whatever errors the storage layer raises on the way, every todo's owner reference
  is the identifier of a user row; and a request to either route on any store in which this
  holds leaves a store in which it holds.
\<close>

theorem owners_resolve_invariant:
  "owners_resolve (serve rs empty_store) \<and>
   (owners_resolve s \<longrightarrow> owners_resolve (fst (handle f r s)))"
proof
  show "owners_resolve (serve rs empty_store)"
    using owners_resolve_empty by (rule serve_owners)
  show "owners_resolve s \<longrightarrow> owners_resolve (fst (handle f r s))"
    by (simp add: handle_owners)
qed

theorem owners_resolve_invariant_witness:
  "owners_resolve empty_store \<and>
   owners_resolve (fst (handle None GetTestDb empty_store)) \<and>
   owners_resolve
     (serve [(Some AtTodosCommit, GetTestDb), (None, GetHome), (None, GetTestDb)] empty_store)"
proof -
  have h: "owners_resolve empty_store"
    by (simp add: owners_resolve_def empty_store_def)
  show ?thesis
    using h owners_resolve_invariant
      [of "[(Some AtTodosCommit, GetTestDb), (None, GetHome), (None, GetTestDb)]"
          empty_store None GetTestDb]
    by simp
qed

text \<open>
  C7. No request deletes a row: for every store, every request to either route and whatever
  the storage layer does, the user table after the request begins with the user table before
  it, and likewise the todo table. So every row is still there and no row count decreases.
\<close>

theorem handle_deletes_nothing:
  "(let s' = fst (handle f r s) in
      prefix (users s) (users s') \<and> prefix (todos s) (todos s') \<and>
      set (users s) \<subseteq> set (users s') \<and> set (todos s) \<subseteq> set (todos s') \<and>
      length (users s) \<le> length (users s') \<and> length (todos s) \<le> length (todos s'))"
proof -
  have u: "prefix (users s) (users (fst (handle f r s)))"
    by (cases r) (simp_all add: handle_def home_def test_db_users_prefix)
  have t: "prefix (todos s) (todos (fst (handle f r s)))"
    by (cases r) (simp_all add: handle_def home_def test_db_todos_prefix)
  from u t show ?thesis
    by (simp add: Let_def set_mono_prefix prefix_length_le)
qed

text \<open>
  C8. On every store, a request to \<^verbatim>\<open>/\<close> answers with status 200 and leaves the store
  exactly as it is.
\<close>

theorem home_no_side_effect:
  "fst (handle f GetHome s) = s \<and> fst (home s) = s \<and>
   (\<exists>resp. snd (home s) = Inr resp \<and> snd (handle f GetHome s) = Inr resp \<and> status resp = 200)"
  by (simp add: handle_def home_def render_template_def)

text \<open>
  C9. The guard counts users only. On a store with no user row, a served request to
  \<^verbatim>\<open>/test-db\<close> runs the seed branch however many todo rows there are: afterwards there
  are exactly 3 user rows, and the todo table is the one before the request followed by
  exactly 3 new rows, each of which refers to one of the 3 new users.
\<close>

theorem test_db_guard_ignores_todos:
  "users s = [] \<Longrightarrow>
   (let s' = fst (test_db None s); new_todos = drop (length (todos s)) (todos s') in
      length (users s') = 3 \<and>
      todos s' = todos s @ new_todos \<and> length new_todos = 3 \<and>
      list_all (\<lambda>t. user_id t \<noteq> None \<and> list_ex (\<lambda>u. u_id u = user_id t) (users s'))
        new_todos)"
  by (simp add: model_defs next_id_def)

theorem test_db_guard_ignores_todos_witness:
  "users orphan_todo_store = [] \<and> length (todos orphan_todo_store) = 1 \<and>
   (let s' = fst (test_db None orphan_todo_store);
        new_todos = drop (length (todos orphan_todo_store)) (todos s') in
      length (users s') = 3 \<and>
      todos s' = todos orphan_todo_store @ new_todos \<and> length new_todos = 3 \<and>
      list_all (\<lambda>t. user_id t \<noteq> None \<and> list_ex (\<lambda>u. u_id u = user_id t) (users s'))
        new_todos)"
proof -
  have h: "users orphan_todo_store = []" by (simp add: orphan_todo_store_def)
  have n: "length (todos orphan_todo_store) = 1" by (simp add: orphan_todo_store_def)
  show ?thesis using h n test_db_guard_ignores_todos [OF h] by simp
qed

end
